theory Spec2Isabelle
  imports Main
begin

section \<open>Apple receipt validation (lib/apple.js)\<close>

text \<open>
  A shallow embedding of \<^verbatim>\<open>lib/apple.js\<close>: the error table, the receipt normalizer
  \<^verbatim>\<open>getPurchaseData\<close> with its helper \<^verbatim>\<open>getSubscriptionExpireDate\<close>, the response
  handler \<^verbatim>\<open>handleResponse\<close> and the two-attempt orchestrator \<^verbatim>\<open>validatePurchase\<close>.

  Conventions of the embedding.
  \<^item> A JavaScript property that may be missing is an \<open>option\<close>: \<open>None\<close> is
    \<^verbatim>\<open>undefined\<close>. The fields of a purchase item are JSON strings, as Apple sends them;
    a string is a list of 8-bit characters. The status of a response is an integer.
  \<^item> A JavaScript number that the program computes is a \<open>jsnum\<close>: \<open>NaN\<close>, an
    integer or an infinity. The program makes numbers from decimal digits and from the
    clock only, so every finite number is an integer; \<^verbatim>\<open>parseInt\<close> rounds it to a
    double.
  \<^item> Objects that are mutated in place or shared live in a heap, addressed by
    references; a closure variable is a field of the state record that is passed along.
  \<^item> An uncaught \<^verbatim>\<open>TypeError\<close> (reading a property of \<^verbatim>\<open>undefined\<close>) is the outcome
    \<open>Uncaught\<close>: the caller's callback is never invoked.
\<close>

subsection \<open>Values\<close>

datatype jsnum = NaN | Number int | Infinity | MinusInfinity

text \<open>Truthiness of the values the program tests.\<close>

fun truthy_num :: "jsnum \<Rightarrow> bool" where
  "truthy_num NaN = False"
| "truthy_num (Number n) = (n \<noteq> 0)"
| "truthy_num Infinity = True"
| "truthy_num MinusInfinity = True"

fun truthy_str :: "string option \<Rightarrow> bool" where
  "truthy_str None = False"
| "truthy_str (Some s) = (s \<noteq> [])"

text \<open>\<^verbatim>\<open>a < b\<close> on numbers: false as soon as one side is \<^verbatim>\<open>NaN\<close> (or \<^verbatim>\<open>undefined\<close>).\<close>

fun num_less :: "jsnum \<Rightarrow> jsnum \<Rightarrow> bool" where
  "num_less (Number a) (Number b) = (a < b)"
| "num_less (Number a) Infinity = True"
| "num_less MinusInfinity (Number b) = True"
| "num_less MinusInfinity Infinity = True"
| "num_less _ _ = False"

text \<open>
  \<^verbatim>\<open>now - exp >= 0\<close>, where \<^verbatim>\<open>now\<close> is the reading of \<^verbatim>\<open>Date.now()\<close>, an integer
  number of milliseconds. The difference of two numbers is rounded, but its sign is
  that of the exact difference, and it is infinite when \<^verbatim>\<open>exp\<close> is.
\<close>

fun elapsed :: "int \<Rightarrow> jsnum \<Rightarrow> bool" where
  "elapsed now (Number e) = (now - e \<ge> 0)"
| "elapsed now MinusInfinity = True"
| "elapsed now Infinity = False"
| "elapsed now NaN = False"

subsection \<open>The error table\<close>

definition errorMap :: "int \<Rightarrow> string option" where
  "errorMap code =
    (if code = 21000 then Some ''The App Store could not read the JSON object you provided.''
     else if code = 21002 then Some ''The data in the receipt-data property was malformed.''
     else if code = 21003 then Some ''The receipt could not be authenticated.''
     else if code = 21004 then Some ''The shared secret you provided does not match the shared secret on file for your account.''
     else if code = 21005 then Some ''The receipt server is not currently available.''
     else if code = 21006 then Some ''This receipt is valid but the subscription has expired. When this status code is returned to your server, the receipt data is also decoded and returned as part of the response.''
     else if code = 21007 then Some ''This receipt is a sandbox receipt, but it was sent to the production service for verification.''
     else if code = 21008 then Some ''This receipt is a production receipt, but it was sent to the sandbox service for verification.''
     else if code = 2 then Some ''The receipt is valid, but purchased nothing.''
     else None)"

text \<open>
  \<^verbatim>\<open>errorMap[status] || fallback\<close>. Every string of the table is non-empty, so the
  fallback is taken exactly when the code has no entry.
\<close>

definition message_or :: "int \<Rightarrow> string \<Rightarrow> string" where
  "message_or code fallback = (case errorMap code of Some m \<Rightarrow> m | None \<Rightarrow> fallback)"

subsection \<open>Receipt payloads\<close>

text \<open>
  \<^verbatim>\<open>getSubscriptionExpireDate\<close> is applied to a purchase item and to the whole payload;
  both are records that extend \<open>expiring\<close>, the two properties it reads.
\<close>

record expiring =
  expires_date_ms :: "string option"
  expires_date :: "string option"

record purchase_item = expiring +
  original_transaction_id :: "string option"
  transaction_id :: "string option"
  product_id :: "string option"
  original_purchase_date_ms :: "string option"
  purchase_date_ms :: "string option"
  quantity :: "string option"

record app_receipt = purchase_item +
  bundle_id :: "string option"
  in_app :: "purchase_item list option"

text \<open>
  \<^verbatim>\<open>latest_receipt_info\<close> is a list in the modern format and a single object in the
  old one; the program tells them apart with \<^verbatim>\<open>Array.isArray\<close>.
\<close>

datatype lri_value = LriObject purchase_item | LriArray "purchase_item list"

datatype service_tag = APPLE

record payload = expiring +
  status :: int
  message :: "string option"
  service :: "service_tag option"
  receipt :: "app_receipt option"
  latest_receipt_info :: "lri_value option"

record purchase_record =
  bundleId :: "string option"
  transactionId :: "string option"
  productId :: "string option"
  purchaseDate :: "string option"
  quantity :: jsnum
  expirationDate :: jsnum

record options =
  ignoreExpired :: bool

subsection \<open>parseInt with radix 10\<close>

text \<open>
  \<^verbatim>\<open>parseInt(v, 10)\<close>: the argument is converted to a string (\<^verbatim>\<open>undefined\<close> becomes
  the string \<^verbatim>\<open>"undefined"\<close>), leading white space is dropped, one sign is read, and
  the longest prefix of decimal digits is the value; no digit gives \<^verbatim>\<open>NaN\<close>.
\<close>

definition ToString :: "string option \<Rightarrow> string" where
  "ToString v = (case v of None \<Rightarrow> ''undefined'' | Some s \<Rightarrow> s)"

definition isStrWhiteSpaceChar :: "char \<Rightarrow> bool" where
  "isStrWhiteSpaceChar c =
    (c = CHR 0x09 \<or> c = CHR 0x0A \<or> c = CHR 0x0B \<or> c = CHR 0x0C \<or> c = CHR 0x0D \<or>
     c = CHR 0x20 \<or> c = CHR 0xA0)"

definition isDigit :: "char \<Rightarrow> bool" where
  "isDigit c = (48 \<le> (of_char c :: nat) \<and> (of_char c :: nat) \<le> 57)"

fun decimal :: "nat \<Rightarrow> string \<Rightarrow> nat" where
  "decimal acc [] = acc"
| "decimal acc (c # cs) = decimal (10 * acc + (of_char c - 48)) cs"

text \<open>
  The integer that the digits denote becomes a Number, a double: up to \<open>2^53\<close> it is
  kept, beyond it is rounded to the nearest integer with 53 significant bits, a tie
  going to the even one, and from \<open>2^1024\<close> on the result is infinite (\<open>None\<close>).
  (The language standard also allows an implementation to read the digits after the
  twentieth as zeros; the conversion here is the exact one.)
\<close>

fun bit_length :: "nat \<Rightarrow> nat" where
  "bit_length n = (if n = 0 then 0 else Suc (bit_length (n div 2)))"

declare bit_length.simps [simp del]

definition to_double :: "nat \<Rightarrow> nat option" where
  "to_double n =
    (if n < 9007199254740992 then Some n
     else
       let e = bit_length n - 53;
           q = n div 2 ^ e;
           r = n mod 2 ^ e;
           q1 = (if 2 * r > 2 ^ e \<or> (2 * r = 2 ^ e \<and> odd q) then q + 1 else q)
       in if q1 * 2 ^ e \<ge> 2 ^ 1024 then None else Some (q1 * 2 ^ e))"

definition parseInt :: "string option \<Rightarrow> jsnum" where
  "parseInt v =
    (let s = dropWhile isStrWhiteSpaceChar (ToString v);
         neg = (case s of [] \<Rightarrow> False | c # _ \<Rightarrow> c = CHR ''-'');
         s1 = (case s of [] \<Rightarrow> [] | c # cs \<Rightarrow> if c = CHR ''-'' \<or> c = CHR ''+'' then cs else s);
         ds = takeWhile isDigit s1
     in if ds = [] then NaN
        else
          (case to_double (decimal 0 ds) of
             None \<Rightarrow> if neg then MinusInfinity else Infinity
           | Some m \<Rightarrow> Number ((if neg then - 1 else 1) * int m)))"

subsection \<open>The receipt normalizer\<close>

definition getSubscriptionExpireDate :: "'a expiring_scheme \<Rightarrow> jsnum" where
  "getSubscriptionExpireDate d =
    (if truthy_str (expires_date_ms d) then parseInt (expires_date_ms d)
     else if truthy_str (expires_date d) then parseInt (expires_date d)
     else Number 0)"

text \<open>
  The loop keeps the output array \<^verbatim>\<open>data\<close> and the object \<^verbatim>\<open>tids\<close>, which maps an
  original transaction id to \<^verbatim>\<open>{ time, index }\<close>. A property name is a string, so an
  id that is \<^verbatim>\<open>undefined\<close> is the key \<^verbatim>\<open>"undefined"\<close>. The properties that \<^verbatim>\<open>tids\<close>
  inherits from its prototype are functions or objects without a numeric \<^verbatim>\<open>time\<close>:
  the test \<^verbatim>\<open>tids[tid].time < pdate\<close> is false on them, as it is on a missing key.
\<close>

record tid_entry =
  time :: jsnum
  index :: nat

record loop_state =
  data :: "purchase_record option list"
  tids :: "string \<Rightarrow> tid_entry option"

text \<open>
  \<^verbatim>\<open>data[i] = v\<close>: inside the array the slot is overwritten, at its end the array
  grows by one, and beyond its end JavaScript fills the gap with holes (\<open>None\<close>).
\<close>

definition array_set :: "'a option list \<Rightarrow> nat \<Rightarrow> 'a \<Rightarrow> 'a option list" where
  "array_set xs i v =
    (if i < length xs then xs[i := Some v]
     else xs @ replicate (i - length xs) None @ [Some v])"

definition make_record :: "string option \<Rightarrow> purchase_item \<Rightarrow> purchase_record" where
  "make_record bundle item =
    \<lparr> bundleId = bundle,
      transactionId = transaction_id item,
      productId = product_id item,
      purchaseDate = original_purchase_date_ms item,
      quantity = parseInt (purchase_item.quantity item),
      expirationDate = getSubscriptionExpireDate item \<rparr>"

definition ignore_expired :: "options option \<Rightarrow> bool" where
  "ignore_expired opts = (case opts of None \<Rightarrow> False | Some o1 \<Rightarrow> ignoreExpired o1)"

text \<open>One iteration of the loop; \<open>now\<close> is what \<^verbatim>\<open>Date.now()\<close> returns in it.\<close>

definition loop_body ::
  "string option \<Rightarrow> options option \<Rightarrow> int \<Rightarrow> purchase_item \<Rightarrow> loop_state \<Rightarrow> loop_state" where
  "loop_body bundle opts now item st =
    (let tid = ToString (original_transaction_id item);
         pdate = parseInt (purchase_date_ms item);
         exp = getSubscriptionExpireDate item;
         index0 = length (data st)
     in if ignore_expired opts \<and> truthy_num exp \<and> elapsed now exp then st
        else
          let index1 = (case tids st tid of
                          None \<Rightarrow> index0
                        | Some e \<Rightarrow> if num_less (time e) pdate then index e else index0);
              tids1 = (tids st)(tid \<mapsto> \<lparr> time = pdate, index = length (data st) \<rparr>)
          in \<lparr> data = array_set (data st) index1 (make_record bundle item), tids = tids1 \<rparr>)"

text \<open>
  The \<^verbatim>\<open>for\<close> loop over the working list. The clock is read in every iteration,
  so it is a function of the iteration number \<open>i\<close>.
\<close>

fun loop ::
  "string option \<Rightarrow> options option \<Rightarrow> (nat \<Rightarrow> int) \<Rightarrow> nat \<Rightarrow> purchase_item list \<Rightarrow>
   loop_state \<Rightarrow> loop_state" where
  "loop bundle opts clock i [] st = st"
| "loop bundle opts clock i (item # rest) st =
     loop bundle opts clock (Suc i) rest (loop_body bundle opts (clock i) item st)"

definition working_list :: "purchase_item list \<Rightarrow> lri_value option \<Rightarrow> purchase_item list" where
  "working_list list lri =
    (case lri of Some (LriArray l) \<Rightarrow> list @ l | _ \<Rightarrow> list)"

definition getPurchaseData ::
  "payload option \<Rightarrow> options option \<Rightarrow> (nat \<Rightarrow> int) \<Rightarrow> purchase_record option list option" where
  "getPurchaseData purchase opts clock =
    (case purchase of
       None \<Rightarrow> None
     | Some p \<Rightarrow>
        (case receipt p of
           None \<Rightarrow> None
         | Some rc \<Rightarrow>
            (case in_app rc of
               Some list \<Rightarrow>
                 Some (data (loop (bundle_id rc) opts clock 0
                               (working_list list (latest_receipt_info p))
                               \<lparr> data = [], tids = Map.empty \<rparr>))
             | None \<Rightarrow>
                 Some [Some \<lparr> bundleId = bundle_id rc,
                              transactionId = transaction_id rc,
                              productId = product_id rc,
                              purchaseDate = original_purchase_date_ms rc,
                              quantity = parseInt (purchase_item.quantity rc),
                              expirationDate = getSubscriptionExpireDate p \<rparr>])))"

subsection \<open>Constants of the module\<close>

text \<open>
  Modelled from the spec: the module \<^verbatim>\<open>../constants\<close> is not among the sources. The spec
  gives the success status as \<open>0\<close> and lists status \<open>2\<close>, the one code of the error
  table that is not Apple's, as "valid receipt, purchased nothing", the dedicated
  possible-hack status. \<^verbatim>\<open>SERVICES.APPLE\<close>, the constant tag for Apple, is the
  constructor \<open>APPLE\<close>.
\<close>

definition VALIDATION_SUCCESS :: int where
  "VALIDATION_SUCCESS = 0"

definition VALIDATION_POSSIBLE_HACK :: int where
  "VALIDATION_POSSIBLE_HACK = 2"

definition sandboxHost :: string where
  "sandboxHost = ''sandbox.itunes.apple.com''"

definition liveHost :: string where
  "liveHost = ''buy.itunes.apple.com''"

definition path :: string where
  "path = ''/verifyReceipt''"

definition prodPath :: string where
  "prodPath = ''https://'' @ liveHost @ path"

definition sandboxPath :: string where
  "sandboxPath = ''https://'' @ sandboxHost @ path"

subsection \<open>Objects, errors and the transport\<close>

text \<open>
  The heap holds the response bodies that the transport hands over and the objects
  that the program creates; \<open>next_ref\<close> is the next free address.
\<close>

type_synonym ref = nat

record heap =
  cells :: "ref \<Rightarrow> payload"
  next_ref :: ref

definition alloc :: "payload \<Rightarrow> heap \<Rightarrow> ref \<times> heap" where
  "alloc v h = (next_ref h, h\<lparr> cells := (cells h)(next_ref h := v), next_ref := Suc (next_ref h) \<rparr>)"

definition modify :: "ref \<Rightarrow> (payload \<Rightarrow> payload) \<Rightarrow> heap \<Rightarrow> heap" where
  "modify r f h = h\<lparr> cells := (cells h)(r := f (cells h r)) \<rparr>"

text \<open>The object literal \<^verbatim>\<open>{ status: status, message: message }\<close>.\<close>

definition object_literal :: "int \<Rightarrow> string \<Rightarrow> payload" where
  "object_literal s m =
    \<lparr> expires_date_ms = None, expires_date = None, status = s, message = Some m,
      service = None, receipt = None, latest_receipt_info = None \<rparr>"

text \<open>
  An error is the one the transport reports, or \<^verbatim>\<open>new Error(message)\<close> made by the
  program.
\<close>

datatype error = TransportError string | Error string

record config =
  applePassword :: "string option"

record content =
  receipt_data :: string
  password :: "string option"

text \<open>
  The transport answers a POST of \<open>content\<close> to a URL with \<^verbatim>\<open>(error, res, body)\<close>;
  the body is a reference to the parsed JSON object, or \<^verbatim>\<open>undefined\<close>. The program
  never reads \<^verbatim>\<open>res\<close>.
\<close>

type_synonym response = "error option \<times> ref option"

type_synonym transport = "string \<Rightarrow> content \<Rightarrow> response"

definition send :: "transport \<Rightarrow> string \<Rightarrow> content \<Rightarrow> response" where
  "send request url body = request url body"

subsection \<open>The response handler\<close>

text \<open>
  What reaches the caller: its callback is invoked with an error (or none) and the
  result object, or a \<^verbatim>\<open>TypeError\<close> escapes and the callback is never invoked.
\<close>

datatype outcome = Callback "error option" "ref option" | Uncaught

definition handleResponse :: "string \<Rightarrow> ref option \<Rightarrow> heap \<Rightarrow> outcome \<times> heap" where
  "handleResponse rcpt d h =
    (case d of
       None \<Rightarrow> (Uncaught, h)
     | Some r \<Rightarrow>
        let h1 = modify r (\<lambda>x. x\<lparr> service := Some APPLE \<rparr>) h in
        if status (cells h1 r) = VALIDATION_SUCCESS then
          (case receipt (cells h1 r) of
             None \<Rightarrow> (Uncaught, h1)
           | Some rc \<Rightarrow>
              if in_app rc = Some [] then
                let h2 = modify r (\<lambda>x. x\<lparr> status := VALIDATION_POSSIBLE_HACK \<rparr>) h1;
                    h3 = modify r (\<lambda>x. x\<lparr> message := errorMap (status x) \<rparr>) h2
                in (Callback (Some (Error ''failed to validate for empty purchased list'')) (Some r), h3)
              else (Callback None (Some r), h1))
        else
          let h2 = modify r (\<lambda>x. x\<lparr> message := Some (message_or (status x) ''Unkown'') \<rparr>) h1
          in (Callback (Some (Error ''failed to validate purchase'')) (Some r), h2))"

subsection \<open>The orchestrator\<close>

text \<open>
  The closure variables of \<^verbatim>\<open>validatePurchase\<close>, the heap, and the requests sent so
  far. The variable \<^verbatim>\<open>status\<close> is only read in the statement after its assignment
  and is a local binding here.
\<close>

record vstate =
  objects :: heap
  validatedData :: "ref option"
  isValid :: bool
  requests :: "(string \<times> content) list"

text \<open>A task calls \<^verbatim>\<open>next(error)\<close> or \<^verbatim>\<open>next()\<close>, or a \<^verbatim>\<open>TypeError\<close> escapes from it.\<close>

datatype task_result = Next "error option" vstate | Throws vstate

definition make_content :: "config option \<Rightarrow> string option \<Rightarrow> string \<Rightarrow> content" where
  "make_content cfg secret rcpt =
    (let c0 = \<lparr> receipt_data = rcpt, password = None \<rparr>;
         c1 = (case cfg of
                 None \<Rightarrow> c0
               | Some cf \<Rightarrow> if truthy_str (applePassword cf)
                            then c0\<lparr> password := applePassword cf \<rparr> else c0)
     in if truthy_str secret then c1\<lparr> password := secret \<rparr> else c1)"

text \<open>
  The four failure blocks of the two tasks have one shape: \<^verbatim>\<open>validatedData\<close> becomes
  the new object \<^verbatim>\<open>{ status: status, message: errorMap[status] || 'Unknown' }\<close> and
  \<^verbatim>\<open>next\<close> is called with the error.
\<close>

definition fail_with :: "error \<Rightarrow> int \<Rightarrow> vstate \<Rightarrow> task_result" where
  "fail_with err s st =
    (let (r, h) = alloc (object_literal s (message_or s ''Unknown'')) (objects st)
     in Next (Some err) (st\<lparr> objects := h, validatedData := Some r \<rparr>))"

definition tryProd :: "transport \<Rightarrow> content \<Rightarrow> vstate \<Rightarrow> task_result" where
  "tryProd request body st =
    (let st1 = st\<lparr> requests := requests st @ [(prodPath, body)] \<rparr> in
     case send request prodPath body of
       (Some err, d) \<Rightarrow>
         fail_with err (case d of None \<Rightarrow> 1 | Some r \<Rightarrow> status (cells (objects st1) r)) st1
     | (None, None) \<Rightarrow> Throws st1
     | (None, Some r) \<Rightarrow>
         let s = status (cells (objects st1) r) in
         if s > 0 \<and> s \<noteq> 21007 \<and> s \<noteq> 21002 then
           fail_with (Error (message_or s ''Unknown'')) s st1
         else if s = 21007 \<or> s = 21002 then Next None st1
         else Next None (st1\<lparr> validatedData := Some r, isValid := True \<rparr>))"

definition trySandbox :: "transport \<Rightarrow> content \<Rightarrow> vstate \<Rightarrow> task_result" where
  "trySandbox request body st =
    (if isValid st then Next None st
     else
       let st1 = st\<lparr> requests := requests st @ [(sandboxPath, body)] \<rparr> in
       case send request sandboxPath body of
         (Some err, d) \<Rightarrow>
           fail_with err (case d of None \<Rightarrow> 1 | Some r \<Rightarrow> status (cells (objects st1) r)) st1
       | (None, None) \<Rightarrow> Throws st1
       | (None, Some r) \<Rightarrow>
           let s = status (cells (objects st1) r) in
           if s > 0 then fail_with (Error (message_or s ''Unknown'')) s st1
           else Next None (st1\<lparr> validatedData := Some r \<rparr>))"

definition done_cb :: "string \<Rightarrow> error option \<Rightarrow> vstate \<Rightarrow> outcome \<times> vstate" where
  "done_cb rcpt err st =
    (case err of
       Some e \<Rightarrow> (Callback (Some e) (validatedData st), st)
     | None \<Rightarrow>
        (case handleResponse rcpt (validatedData st) (objects st) of
           (out, h) \<Rightarrow> (out, st\<lparr> objects := h \<rparr>)))"

text \<open>
  Modelled from the spec: \<^verbatim>\<open>async.series\<close> of the module \<^verbatim>\<open>./async\<close>, which is not
  among the sources. The tasks run one after the other, never in parallel; the first
  error ends the series, and the final callback gets that error or none.
\<close>

fun series :: "(vstate \<Rightarrow> task_result) list \<Rightarrow> vstate \<Rightarrow> task_result" where
  "series [] st = Next None st"
| "series (t # ts) st =
     (case t st of
        Next None st1 \<Rightarrow> series ts st1
      | Next (Some e) st1 \<Rightarrow> Next (Some e) st1
      | Throws st1 \<Rightarrow> Throws st1)"

definition validatePurchase ::
  "config option \<Rightarrow> transport \<Rightarrow> heap \<Rightarrow> string option \<Rightarrow> string \<Rightarrow> outcome \<times> vstate" where
  "validatePurchase cfg request h secret rcpt =
    (let body = make_content cfg secret rcpt;
         st0 = \<lparr> objects = h, validatedData = None, isValid = False, requests = [] \<rparr>
     in case series [tryProd request body, trySandbox request body] st0 of
          Next err st \<Rightarrow> done_cb rcpt err st
        | Throws st \<Rightarrow> (Uncaught, st))"

text \<open>The number of requests that a run sent to a URL.\<close>

definition attempts :: "string \<Rightarrow> vstate \<Rightarrow> nat" where
  "attempts url st = length (filter (\<lambda>rq. fst rq = url) (requests st))"

subsection \<open>Auxiliary notions for the normalizer\<close>

text \<open>The test that makes the loop \<^verbatim>\<open>continue\<close>, and the slot that an iteration writes.\<close>

definition skipped :: "options option \<Rightarrow> int \<Rightarrow> purchase_item \<Rightarrow> bool" where
  "skipped opts now item =
    (ignore_expired opts \<and> truthy_num (getSubscriptionExpireDate item) \<and>
     elapsed now (getSubscriptionExpireDate item))"

definition write_index :: "loop_state \<Rightarrow> purchase_item \<Rightarrow> nat" where
  "write_index st item =
    (case tids st (ToString (original_transaction_id item)) of
       None \<Rightarrow> length (data st)
     | Some e \<Rightarrow> if num_less (time e) (parseInt (purchase_date_ms item)) then index e
                else length (data st))"

text \<open>The slots written by a run of the loop, in order.\<close>

fun written_slots ::
  "string option \<Rightarrow> options option \<Rightarrow> (nat \<Rightarrow> int) \<Rightarrow> nat \<Rightarrow> purchase_item list \<Rightarrow>
   loop_state \<Rightarrow> nat list" where
  "written_slots bundle opts clock i [] st = []"
| "written_slots bundle opts clock i (item # rest) st =
     (if skipped opts (clock i) item then [] else [write_index st item]) @
     written_slots bundle opts clock (Suc i) rest (loop_body bundle opts (clock i) item st)"

subsection \<open>Auxiliary notions for the orchestrator\<close>

text \<open>
  The response that decides a run: that of the Production endpoint, or that of the
  Sandbox endpoint when Production answers, without an error, with one of the two
  wrong-environment statuses.
\<close>

definition deciding_response :: "transport \<Rightarrow> content \<Rightarrow> heap \<Rightarrow> response" where
  "deciding_response request body h =
    (case request prodPath body of
       (None, Some r0) \<Rightarrow>
         if status (cells h r0) = 21007 \<or> status (cells h r0) = 21002
         then request sandboxPath body else (None, Some r0)
     | live \<Rightarrow> live)"

subsection \<open>Decimal numerals\<close>

text \<open>
  The decimal numeral of a natural number, without leading zeros: the reference
  against which the parsing of base-10 integers is stated.
\<close>

definition digit_char :: "nat \<Rightarrow> char" where
  "digit_char d = char_of (48 + d)"

fun numeral_string :: "nat \<Rightarrow> string" where
  "numeral_string n =
    (if n < 10 then [digit_char n] else numeral_string (n div 10) @ [digit_char (n mod 10)])"

declare numeral_string.simps [simp del]

subsection \<open>Example inputs\<close>

definition example_item :: "string \<Rightarrow> string \<Rightarrow> string \<Rightarrow> string option \<Rightarrow> purchase_item" where
  "example_item otid tid pdate exp =
    \<lparr> expires_date_ms = exp, expires_date = None, original_transaction_id = Some otid,
      transaction_id = Some tid, product_id = Some ''p1'',
      original_purchase_date_ms = Some ''1'', purchase_date_ms = Some pdate,
      quantity = Some ''1'' \<rparr>"

definition example_receipt :: "purchase_item list option \<Rightarrow> app_receipt" where
  "example_receipt l =
    \<lparr> expires_date_ms = None, expires_date = None, original_transaction_id = None,
      transaction_id = Some ''1'', product_id = Some ''p1'',
      original_purchase_date_ms = None, purchase_date_ms = None,
      quantity = Some ''2'', bundle_id = Some ''com.x'', in_app = l \<rparr>"

definition example_payload :: "int \<Rightarrow> purchase_item list option \<Rightarrow> payload" where
  "example_payload s l =
    \<lparr> expires_date_ms = None, expires_date = None, status = s, message = None,
      service = None, receipt = Some (example_receipt l), latest_receipt_info = None \<rparr>"

text \<open>A heap that holds the given response bodies, and a transport with fixed answers.\<close>

definition example_heap :: "payload list \<Rightarrow> heap" where
  "example_heap bodies =
    \<lparr> cells = (\<lambda>r. if r < length bodies then bodies ! r else object_literal 0 []),
      next_ref = length bodies \<rparr>"

definition example_transport :: "response \<Rightarrow> response \<Rightarrow> transport" where
  "example_transport live sandbox = (\<lambda>url body. if url = prodPath then live else sandbox)"

section \<open>Properties of the normalizer\<close>

lemma loop_body_skipped: "skipped opts now item \<Longrightarrow> loop_body bundle opts now item st = st"
  by (simp add: loop_body_def skipped_def Let_def)

lemma loop_body_written:
  "\<not> skipped opts now item \<Longrightarrow>
   loop_body bundle opts now item st =
     \<lparr> data = array_set (data st) (write_index st item) (make_record bundle item),
       tids = (tids st)(ToString (original_transaction_id item) \<mapsto>
                \<lparr> time = parseInt (purchase_date_ms item), index = length (data st) \<rparr>) \<rparr>"
  by (auto simp add: loop_body_def skipped_def write_index_def Let_def split: option.splits)

lemma array_set_at: "i < length (array_set xs i v) \<and> array_set xs i v ! i = Some v"
  by (simp add: array_set_def nth_append)

lemma array_set_length: "length xs \<le> length (array_set xs i v)"
  by (simp add: array_set_def)

lemma array_set_other: "k < length xs \<Longrightarrow> k \<noteq> i \<Longrightarrow> array_set xs i v ! k = xs ! k"
  by (simp add: array_set_def nth_append)

lemma loop_append:
  "loop bundle opts clock i (xs @ ys) st =
   loop bundle opts clock (i + length xs) ys (loop bundle opts clock i xs st)"
  by (induction xs arbitrary: i st) simp_all

text \<open>A slot that no later iteration writes keeps its record until the loop ends.\<close>

lemma loop_keeps_slot:
  "k < length (data st) \<Longrightarrow> k \<notin> set (written_slots bundle opts clock i xs st) \<Longrightarrow>
   k < length (data (loop bundle opts clock i xs st)) \<and>
   data (loop bundle opts clock i xs st) ! k = data st ! k"
proof (induction xs arbitrary: i st)
  case Nil
  then show ?case by simp
next
  case (Cons item rest)
  let ?st1 = "loop_body bundle opts (clock i) item st"
  have step: "k < length (data ?st1) \<and> data ?st1 ! k = data st ! k"
  proof (cases "skipped opts (clock i) item")
    case True
    then show ?thesis using Cons.prems(1) by (simp add: loop_body_skipped)
  next
    case False
    then have "k \<noteq> write_index st item" using Cons.prems(2) by auto
    then show ?thesis
      using False Cons.prems(1)
        array_set_length [of "data st" "write_index st item" "make_record bundle item"]
      by (simp add: loop_body_written array_set_other)
  qed
  have "k \<notin> set (written_slots bundle opts clock (Suc i) rest ?st1)"
    using Cons.prems(2) by simp
  with step Cons.IH [of ?st1 "Suc i"] show ?case by simp
qed

text \<open>\<^verbatim>\<open>parseInt\<close> reads a decimal numeral as the number it denotes.\<close>

lemma of_char_digit_char: "d < 10 \<Longrightarrow> (of_char (digit_char d) :: nat) = 48 + d"
  by (simp add: digit_char_def)

lemma isDigit_digit_char: "d < 10 \<Longrightarrow> isDigit (digit_char d)"
  by (simp add: isDigit_def of_char_digit_char)

lemma not_space_digit_char: "d < 10 \<Longrightarrow> \<not> isStrWhiteSpaceChar (digit_char d)"
proof
  assume d: "d < 10" and "isStrWhiteSpaceChar (digit_char d)"
  then have "(of_char (digit_char d) :: nat) \<in> {9, 10, 11, 12, 13, 32, 160}"
    by (auto simp add: isStrWhiteSpaceChar_def)
  with d show False by (simp add: of_char_digit_char)
qed

lemma not_sign_digit_char: "d < 10 \<Longrightarrow> digit_char d \<noteq> CHR ''-'' \<and> digit_char d \<noteq> CHR ''+''"
proof -
  assume d: "d < 10"
  have "(of_char (CHR ''-'') :: nat) = 45" "(of_char (CHR ''+'') :: nat) = 43" by simp_all
  moreover have "(of_char (digit_char d) :: nat) = 48 + d" using d by (rule of_char_digit_char)
  ultimately show ?thesis by auto
qed

lemma numeral_string_digits: "list_all isDigit (numeral_string n)"
proof (induction n rule: numeral_string.induct)
  case (1 n)
  then show ?case
    by (subst numeral_string.simps) (simp add: isDigit_digit_char)
qed

lemma numeral_string_nonempty: "numeral_string n \<noteq> []"
  by (subst numeral_string.simps) simp

lemma numeral_string_hd: "\<exists>d cs. d < 10 \<and> numeral_string n = digit_char d # cs"
proof (induction n rule: numeral_string.induct)
  case (1 n)
  show ?case
  proof (cases "n < 10")
    case True
    then show ?thesis by (subst numeral_string.simps) auto
  next
    case False
    with 1 obtain d cs where "d < 10" "numeral_string (n div 10) = digit_char d # cs" by blast
    with False show ?thesis by (subst numeral_string.simps) auto
  qed
qed

lemma decimal_append: "decimal acc (xs @ ys) = decimal (decimal acc xs) ys"
  by (induction xs arbitrary: acc) simp_all

lemma decimal_numeral_string: "decimal 0 (numeral_string n) = n"
proof (induction n rule: numeral_string.induct)
  case (1 n)
  show ?case
  proof (cases "n < 10")
    case True
    then show ?thesis by (subst numeral_string.simps) (simp add: of_char_digit_char)
  next
    case False
    with 1 have "decimal 0 (numeral_string (n div 10)) = n div 10" by simp
    with False show ?thesis
      by (subst numeral_string.simps) (simp add: decimal_append of_char_digit_char)
  qed
qed

lemma takeWhile_all: "list_all P xs \<Longrightarrow> takeWhile P xs = xs"
  by (induction xs) simp_all

lemma parseInt_numeral_string:
  "parseInt (Some (numeral_string n)) =
     (case to_double n of None \<Rightarrow> Infinity | Some m \<Rightarrow> Number (int m))"
proof -
  obtain d cs where d: "d < 10" and eq: "numeral_string n = digit_char d # cs"
    using numeral_string_hd by blast
  have tw: "takeWhile isDigit (numeral_string n) = numeral_string n"
    using numeral_string_digits by (rule takeWhile_all)
  have "parseInt (Some (digit_char d # cs)) =
      (case to_double (decimal 0 (digit_char d # cs)) of
         None \<Rightarrow> Infinity | Some m \<Rightarrow> Number (int m))"
    using d not_space_digit_char [OF d] not_sign_digit_char [OF d] tw [unfolded eq]
    by (simp add: parseInt_def ToString_def Let_def split: option.splits)
  then show ?thesis
    using decimal_numeral_string [of n] by (simp add: eq)
qed

text \<open>Up to \<open>2^53\<close> the numeral is read exactly; beyond, the value is rounded.\<close>

lemma parseInt_numeral_string_exact:
  "n < 9007199254740992 \<Longrightarrow> parseInt (Some (numeral_string n)) = Number (int n)"
  by (simp add: parseInt_numeral_string to_double_def)

lemma bit_length_example: "bit_length 9007199254740993 = 54"
  by (simp add: bit_length.simps)

lemma to_double_rounds: "to_double 9007199254740993 = Some 9007199254740992"
  by (simp add: to_double_def bit_length_example Let_def)

lemma parseInt_rounds:
  "parseInt (Some ''9007199254740993'') = Number 9007199254740992"
  by (simp add: parseInt_def ToString_def isStrWhiteSpaceChar_def isDigit_def Let_def
      to_double_rounds)

text \<open>The equations that evaluate the normalizer on a concrete input.\<close>

lemmas evaluation = getPurchaseData_def working_list_def loop_body_def parseInt_def to_double_def
  ToString_def isStrWhiteSpaceChar_def isDigit_def
  getSubscriptionExpireDate_def array_set_def make_record_def ignore_expired_def example_item_def example_receipt_def example_payload_def Let_def

text \<open>
  The legacy path: a payload whose receipt has no \<^verbatim>\<open>in_app\<close> key gives exactly one
  record, whatever the options and the clock are. The receipt supplies its fields,
  but the expiration date is computed from the payload, the argument \<^verbatim>\<open>purchase\<close>.
\<close>

lemma legacy_record:
  assumes "receipt p = Some rc" and "in_app rc = None"
  shows "getPurchaseData (Some p) opts clock =
     Some [Some \<lparr> bundleId = bundle_id rc,
                  transactionId = transaction_id rc,
                  productId = product_id rc,
                  purchaseDate = original_purchase_date_ms rc,
                  quantity = parseInt (purchase_item.quantity rc),
                  expirationDate = getSubscriptionExpireDate p \<rparr>]"
  using assms by (simp add: getPurchaseData_def)

text \<open>
  C7. The claim does not hold of the legacy path. The one record is synthesized from
  the top-level fields of the receipt and its quantity \<^verbatim>\<open>"2"\<close> is parsed to \<open>2\<close>, with
  or without \<^verbatim>\<open>ignoreExpired\<close>, but its expiration date is not the one that the
  fallback rule gives on the receipt: a receipt that expires at \<open>777\<close> gets the
  expiration date \<open>0\<close>, and the date \<open>888\<close> when the payload itself has the property
  \<^verbatim>\<open>expires_date\<close>. The loop of the modern path applies the rule to the item that
  supplies the other fields; the legacy path applies it to \<^verbatim>\<open>purchase\<close> where it reads
  all other fields from \<^verbatim>\<open>purchase.receipt\<close>.
\<close>

theorem legacy_expiration_not_from_receipt:
  "getSubscriptionExpireDate ((example_receipt None)\<lparr> expires_date_ms := Some ''777'' \<rparr>) =
     Number 777 \<and>
   getPurchaseData
     (Some ((example_payload 0 None)
        \<lparr> receipt := Some ((example_receipt None)\<lparr> expires_date_ms := Some ''777'' \<rparr>) \<rparr>))
     None (\<lambda>_. 0) =
     Some [Some \<lparr> bundleId = Some ''com.x'', transactionId = Some ''1'', productId = Some ''p1'',
                  purchaseDate = None, quantity = Number 2, expirationDate = Number 0 \<rparr>] \<and>
   getPurchaseData
     (Some ((example_payload 0 None)
        \<lparr> receipt := Some ((example_receipt None)\<lparr> expires_date_ms := Some ''777'' \<rparr>) \<rparr>))
     (Some \<lparr> ignoreExpired = True \<rparr>) (\<lambda>_. 1000) =
     Some [Some \<lparr> bundleId = Some ''com.x'', transactionId = Some ''1'', productId = Some ''p1'',
                  purchaseDate = None, quantity = Number 2, expirationDate = Number 0 \<rparr>] \<and>
   getPurchaseData
     (Some ((example_payload 0 None)
        \<lparr> expires_date := Some ''888'',
          receipt := Some ((example_receipt None)\<lparr> expires_date_ms := Some ''777'' \<rparr>) \<rparr>))
     None (\<lambda>_. 0) =
     Some [Some \<lparr> bundleId = Some ''com.x'', transactionId = Some ''1'', productId = Some ''p1'',
                  purchaseDate = None, quantity = Number 2, expirationDate = Number 888 \<rparr>]"
  by (simp add: evaluation)

text \<open>
  C6 (as amended). With \<^verbatim>\<open>ignoreExpired\<close> set, an item of the working list whose
  expiration date is positive and in the past (\<^verbatim>\<open>now - expirationDate >= 0\<close> at its
  iteration) is skipped: the iteration leaves the output array and the dedup map as
  they are, and the run continues from the state before the item. An item whose
  expiration date is in the future is not skipped: its iteration stores its record
  in the output array and refreshes the dedup map, and the record is in the returned
  array at that slot unless a later item of the working list is written to the same
  slot.
\<close>

theorem ignore_expired_filter:
  assumes "receipt p = Some rc" and "in_app rc = Some list"
    and "working_list list (latest_receipt_info p) = xs @ item # ys"
    and "ignore_expired opts"
    and "getSubscriptionExpireDate item = Number e"
  shows
    "(0 < e \<and> 0 \<le> clock (length xs) - e \<longrightarrow>
        loop_body (bundle_id rc) opts (clock (length xs)) item st = st \<and>
        getPurchaseData (Some p) opts clock =
          Some (data (loop (bundle_id rc) opts clock (Suc (length xs)) ys
                  (loop (bundle_id rc) opts clock 0 xs \<lparr> data = [], tids = Map.empty \<rparr>)))) \<and>
     (clock (length xs) - e < 0 \<longrightarrow>
        (let st0 = loop (bundle_id rc) opts clock 0 xs \<lparr> data = [], tids = Map.empty \<rparr>;
             st1 = loop_body (bundle_id rc) opts (clock (length xs)) item st0;
             k = write_index st0 item
         in k < length (data st1) \<and>
            data st1 ! k = Some (make_record (bundle_id rc) item) \<and>
            tids st1 (ToString (original_transaction_id item)) =
              Some \<lparr> time = parseInt (purchase_date_ms item), index = length (data st0) \<rparr> \<and>
            (k \<notin> set (written_slots (bundle_id rc) opts clock (Suc (length xs)) ys st1) \<longrightarrow>
               (\<exists>out. getPurchaseData (Some p) opts clock = Some out \<and> k < length out \<and>
                      out ! k = Some (make_record (bundle_id rc) item)))))"
proof -
  let ?b = "bundle_id rc"
  let ?init = "\<lparr> data = [], tids = Map.empty \<rparr>"
  let ?st0 = "loop ?b opts clock 0 xs ?init"
  let ?now = "clock (length xs)"
  let ?st1 = "loop_body ?b opts ?now item ?st0"
  have run: "getPurchaseData (Some p) opts clock =
      Some (data (loop ?b opts clock (Suc (length xs)) ys ?st1))"
    using assms(1-3) by (simp add: getPurchaseData_def loop_append)
  have past: "loop_body ?b opts ?now item s = s" if "0 < e" "0 \<le> ?now - e" for s
  proof -
    have "skipped opts ?now item" using that assms(4,5) by (simp add: skipped_def)
    then show ?thesis by (rule loop_body_skipped)
  qed
  have future: "k < length (data ?st1) \<and> data ?st1 ! k = Some (make_record ?b item) \<and>
      tids ?st1 (ToString (original_transaction_id item)) =
        Some \<lparr> time = parseInt (purchase_date_ms item), index = length (data ?st0) \<rparr> \<and>
      (k \<notin> set (written_slots ?b opts clock (Suc (length xs)) ys ?st1) \<longrightarrow>
        (\<exists>out. getPurchaseData (Some p) opts clock = Some out \<and> k < length out \<and>
               out ! k = Some (make_record ?b item)))"
    if "?now - e < 0" and k: "k = write_index ?st0 item" for k
  proof -
    have ns: "\<not> skipped opts ?now item" using that(1) assms(5) by (simp add: skipped_def)
    have at: "k < length (data ?st1) \<and> data ?st1 ! k = Some (make_record ?b item)"
      using ns k array_set_at [of "write_index ?st0 item" "data ?st0" "make_record ?b item"]
      by (simp add: loop_body_written)
    have tid: "tids ?st1 (ToString (original_transaction_id item)) =
        Some \<lparr> time = parseInt (purchase_date_ms item), index = length (data ?st0) \<rparr>"
      using ns by (simp add: loop_body_written)
    have "\<exists>out. getPurchaseData (Some p) opts clock = Some out \<and> k < length out \<and>
               out ! k = Some (make_record ?b item)"
      if "k \<notin> set (written_slots ?b opts clock (Suc (length xs)) ys ?st1)"
      using loop_keeps_slot [OF conjunct1 [OF at] that] at run by simp
    with at tid show ?thesis by blast
  qed
  show ?thesis
    using past [of st] past [of ?st0] future run by (simp add: Let_def)
qed

theorem ignore_expired_filter_witness:
  "loop_body (Some ''com.x'') (Some \<lparr> ignoreExpired = True \<rparr>) 1000
     (example_item ''T1'' ''a'' ''100'' (Some ''500'')) \<lparr> data = [], tids = Map.empty \<rparr> =
     \<lparr> data = [], tids = Map.empty \<rparr> \<and>
   getPurchaseData
     (Some (example_payload 0 (Some
        [example_item ''T1'' ''a'' ''100'' (Some ''500''),
         example_item ''T2'' ''b'' ''200'' (Some ''2000'')])))
     (Some \<lparr> ignoreExpired = True \<rparr>) (\<lambda>_. 1000) =
   Some [Some (make_record (Some ''com.x'') (example_item ''T2'' ''b'' ''200'' (Some ''2000'')))]"
proof -
  let ?a = "example_item ''T1'' ''a'' ''100'' (Some ''500'')"
  let ?b = "example_item ''T2'' ''b'' ''200'' (Some ''2000'')"
  let ?p = "example_payload 0 (Some [?a, ?b])"
  let ?o = "Some \<lparr> ignoreExpired = True \<rparr>"
  let ?init = "\<lparr> data = [], tids = Map.empty \<rparr>"
  have w1: "receipt ?p = Some (example_receipt (Some [?a, ?b]))"
    by (simp add: example_payload_def)
  have w2: "in_app (example_receipt (Some [?a, ?b])) = Some [?a, ?b]"
    by (simp add: example_receipt_def)
  have w3: "working_list [?a, ?b] (latest_receipt_info ?p) = [] @ ?a # [?b]"
    by (simp add: working_list_def example_payload_def)
  have v3: "working_list [?a, ?b] (latest_receipt_info ?p) = [?a] @ ?b # []"
    by (simp add: working_list_def example_payload_def)
  have w4: "ignore_expired ?o"
    by (simp add: ignore_expired_def)
  have w5: "getSubscriptionExpireDate ?a = Number 500"
    by (simp add: evaluation)
  have v5: "getSubscriptionExpireDate ?b = Number 2000"
    by (simp add: evaluation)
  have past: "loop_body (Some ''com.x'') ?o 1000 ?a ?init = ?init"
    using ignore_expired_filter [OF w1 w2 w3 w4 w5, of "\<lambda>_. 1000" ?init]
    by (simp add: example_receipt_def)
  have "\<exists>out. getPurchaseData (Some ?p) ?o (\<lambda>_. 1000) = Some out \<and> 0 < length out \<and>
      out ! 0 = Some (make_record (Some ''com.x'') ?b)"
    using ignore_expired_filter [OF w1 w2 v3 w4 v5, of "\<lambda>_. 1000" ?init] past
    by (simp add: example_receipt_def write_index_def Let_def)
  then have "getPurchaseData (Some ?p) ?o (\<lambda>_. 1000) = Some [Some (make_record (Some ''com.x'') ?b)]"
    by (simp add: evaluation)
  with past show ?thesis by simp
qed

text \<open>
  The claim as stated fails: an item that expires in the future is replaced by a later
  item with the same original transaction id and a larger purchase date.
\<close>

theorem future_item_replaced_counterexample:
  "getSubscriptionExpireDate (example_item ''T1'' ''a'' ''100'' (Some ''2000'')) = Number 2000 \<and>
   \<not> elapsed 1000 (Number 2000) \<and>
   Some (make_record (Some ''com.x'') (example_item ''T1'' ''a'' ''100'' (Some ''2000''))) \<notin>
     set (the (getPurchaseData
       (Some (example_payload 0 (Some
          [example_item ''T1'' ''a'' ''100'' (Some ''2000''),
           example_item ''T1'' ''b'' ''200'' (Some ''2000'')])))
       (Some \<lparr> ignoreExpired = True \<rparr>) (\<lambda>_. 1000)))"
  by (simp add: evaluation)

text \<open>
  C2. The claim does not hold of the loop. Three items with the same original
  transaction id and increasing purchase dates leave two records, and the latest one
  is not in the slot where the id was first seen: the map entry written on a
  replacement stores \<^verbatim>\<open>data.length\<close>, not the slot that was overwritten. An older item
  that follows a newer one of the same id is appended as a second record, and the map
  entry is overwritten with the older purchase date.
\<close>

theorem duplicates_survive:
  "getPurchaseData (Some (example_payload 0 (Some
      [example_item ''T1'' ''a'' ''100'' None, example_item ''T1'' ''b'' ''200'' None,
       example_item ''T1'' ''c'' ''300'' None]))) None (\<lambda>_. 0) =
    Some [Some (make_record (Some ''com.x'') (example_item ''T1'' ''b'' ''200'' None)),
          Some (make_record (Some ''com.x'') (example_item ''T1'' ''c'' ''300'' None))] \<and>
   getPurchaseData (Some (example_payload 0 (Some
      [example_item ''T1'' ''a'' ''200'' None, example_item ''T1'' ''b'' ''100'' None])))
      None (\<lambda>_. 0) =
    Some [Some (make_record (Some ''com.x'') (example_item ''T1'' ''a'' ''200'' None)),
          Some (make_record (Some ''com.x'') (example_item ''T1'' ''b'' ''100'' None))] \<and>
   tids (loop (Some ''com.x'') None (\<lambda>_. 0) 0
      [example_item ''T1'' ''a'' ''200'' None, example_item ''T1'' ''b'' ''100'' None]
      \<lparr> data = [], tids = Map.empty \<rparr>) ''T1'' = Some \<lparr> time = Number 100, index = 1 \<rparr>"
  by (simp add: evaluation)

section \<open>Properties of the orchestrator\<close>

text \<open>The equations that unfold one run of the orchestrator, and those of the examples.\<close>

lemmas orchestrator = validatePurchase_def tryProd_def trySandbox_def send_def fail_with_def
  alloc_def done_cb_def handleResponse_def modify_def attempts_def Let_def

lemma paths_differ: "prodPath \<noteq> sandboxPath"
  by (simp add: prodPath_def sandboxPath_def liveHost_def sandboxHost_def)

lemmas fixtures = example_heap_def example_transport_def example_payload_def example_receipt_def
  example_item_def object_literal_def make_content_def paths_differ
  paths_differ [symmetric]

text \<open>The entries of the error table, and the fallback of the two tasks.\<close>

lemma errorMap_documented:
  "errorMap 21000 = Some ''The App Store could not read the JSON object you provided.''"
  "errorMap 21002 = Some ''The data in the receipt-data property was malformed.''"
  "errorMap 21003 = Some ''The receipt could not be authenticated.''"
  "errorMap 21004 = Some ''The shared secret you provided does not match the shared secret on file for your account.''"
  "errorMap 21005 = Some ''The receipt server is not currently available.''"
  "errorMap 21006 = Some ''This receipt is valid but the subscription has expired. When this status code is returned to your server, the receipt data is also decoded and returned as part of the response.''"
  "errorMap 21007 = Some ''This receipt is a sandbox receipt, but it was sent to the production service for verification.''"
  "errorMap 21008 = Some ''This receipt is a production receipt, but it was sent to the sandbox service for verification.''"
  "errorMap 2 = Some ''The receipt is valid, but purchased nothing.''"
  by (simp_all add: errorMap_def)

lemma errorMap_undocumented:
  "code \<notin> {21000, 21002, 21003, 21004, 21005, 21006, 21007, 21008, 2} \<Longrightarrow>
   errorMap code = None \<and> message_or code ''Unknown'' = ''Unknown''"
  by (simp add: errorMap_def message_or_def)

text \<open>
  A response without an error and without a body makes \<^verbatim>\<open>data.status\<close> throw: the
  callback is never invoked.
\<close>

lemma missing_body_throws:
  "request prodPath (make_content cfg secret rcpt) = (None, None) \<Longrightarrow>
   fst (validatePurchase cfg request h secret rcpt) = Uncaught"
  by (simp add: orchestrator)

text \<open>
  C1 (as amended). When the Production endpoint responds with status 21007 or 21002,
  exactly one request goes to the Sandbox endpoint. When it responds with any other
  positive status, no request goes to the Sandbox endpoint and the run fails with
  \<^verbatim>\<open>new Error(message)\<close> and the result \<^verbatim>\<open>{ status, message }\<close>, where the message is
  the entry of the error table for that status, or \<^verbatim>\<open>"Unknown"\<close> without one; for
  21003 it is "The receipt could not be authenticated."
\<close>

theorem production_status_dispatch:
  assumes "request prodPath (make_content cfg secret rcpt) = (None, Some r)"
    and "validatePurchase cfg request h secret rcpt = (out, st)"
  shows "(status (cells h r) = 21007 \<or> status (cells h r) = 21002 \<longrightarrow>
            attempts sandboxPath st = 1 \<and> map fst (requests st) = [prodPath, sandboxPath]) \<and>
         (0 < status (cells h r) \<and> status (cells h r) \<noteq> 21007 \<and> status (cells h r) \<noteq> 21002 \<longrightarrow>
            attempts sandboxPath st = 0 \<and>
            out = Callback (Some (Error (message_or (status (cells h r)) ''Unknown'')))
                    (Some (next_ref h)) \<and>
            cells (objects st) (next_ref h) =
              object_literal (status (cells h r)) (message_or (status (cells h r)) ''Unknown'')) \<and>
         message_or 21003 ''Unknown'' = ''The receipt could not be authenticated.''"
proof (intro conjI impI)
  assume "status (cells h r) = 21007 \<or> status (cells h r) = 21002"
  then show "attempts sandboxPath st = 1" "map fst (requests st) = [prodPath, sandboxPath]"
    using assms paths_differ
    by (auto simp add: orchestrator split: prod.splits option.splits if_splits)
next
  assume "0 < status (cells h r) \<and> status (cells h r) \<noteq> 21007 \<and> status (cells h r) \<noteq> 21002"
  then show "attempts sandboxPath st = 0"
    "out = Callback (Some (Error (message_or (status (cells h r)) ''Unknown''))) (Some (next_ref h))"
    "cells (objects st) (next_ref h) =
              object_literal (status (cells h r)) (message_or (status (cells h r)) ''Unknown'')"
    using assms paths_differ
    by (auto simp add: orchestrator split: prod.splits option.splits if_splits)
next
  show "message_or 21003 ''Unknown'' = ''The receipt could not be authenticated.''"
    by (simp add: message_or_def errorMap_def)
qed

theorem production_status_dispatch_witness:
  "attempts sandboxPath (snd (validatePurchase None
      (example_transport (None, Some 0) (None, Some 1))
      (example_heap [example_payload 21007 None,
                     example_payload 0 (Some [example_item ''T1'' ''a'' ''100'' None])])
      None ''receipt'')) = 1 \<and>
   attempts sandboxPath (snd (validatePurchase None
      (example_transport (None, Some 0) (None, Some 1))
      (example_heap [example_payload 21003 None,
                     example_payload 0 (Some [example_item ''T1'' ''a'' ''100'' None])])
      None ''receipt'')) = 0 \<and>
   fst (validatePurchase None
      (example_transport (None, Some 0) (None, Some 1))
      (example_heap [example_payload 21003 None,
                     example_payload 0 (Some [example_item ''T1'' ''a'' ''100'' None])])
      None ''receipt'') = Callback (Some (Error ''The receipt could not be authenticated.'')) (Some 2)"
proof -
  let ?t = "example_transport (None, Some 0) (None, Some 1)"
  let ?h1 = "example_heap [example_payload 21007 None,
                     example_payload 0 (Some [example_item ''T1'' ''a'' ''100'' None])]"
  let ?h2 = "example_heap [example_payload 21003 None,
                     example_payload 0 (Some [example_item ''T1'' ''a'' ''100'' None])]"
  have rq: "?t prodPath (make_content None None ''receipt'') = (None, Some 0)"
    by (simp add: example_transport_def)
  have s1: "status (cells ?h1 0) = 21007" and s2: "status (cells ?h2 0) = 21003"
    and n2: "next_ref ?h2 = 2"
    by (simp_all add: example_heap_def example_payload_def)
  have m: "message_or 21003 ''Unknown'' = ''The receipt could not be authenticated.''"
    by (simp add: message_or_def errorMap_def)
  have a: "attempts sandboxPath (snd (validatePurchase None ?t ?h1 None ''receipt'')) = 1"
    using production_status_dispatch [where request = ?t and cfg = None and secret = None
        and rcpt = "''receipt''" and r = 0 and h = ?h1
        and out = "fst (validatePurchase None ?t ?h1 None ''receipt'')"
        and st = "snd (validatePurchase None ?t ?h1 None ''receipt'')"] rq s1
    by simp
  have b: "attempts sandboxPath (snd (validatePurchase None ?t ?h2 None ''receipt'')) = 0 \<and>
        fst (validatePurchase None ?t ?h2 None ''receipt'') =
          Callback (Some (Error ''The receipt could not be authenticated.'')) (Some 2)"
    using production_status_dispatch [where request = ?t and cfg = None and secret = None
        and rcpt = "''receipt''" and r = 0 and h = ?h2
        and out = "fst (validatePurchase None ?t ?h2 None ''receipt'')"
        and st = "snd (validatePurchase None ?t ?h2 None ''receipt'')"] rq s2 n2 m
    by simp
  from a b show ?thesis by simp
qed

text \<open>
  The claim as stated fails on a nonzero status that is not positive: the test of
  \<^verbatim>\<open>tryProd\<close> is \<^verbatim>\<open>data.status > 0\<close>, so the response is taken as validated; the
  failure then comes from the response handler, with its own error.
\<close>

theorem negative_status_counterexample:
  "status (cells (example_heap [example_payload (- 1) None]) 0) = - 1 \<and>
   fst (validatePurchase None (example_transport (None, Some 0) (None, None))
      (example_heap [example_payload (- 1) None]) None ''receipt'') =
     Callback (Some (Error ''failed to validate purchase'')) (Some 0) \<and>
   message_or (- 1) ''Unknown'' = ''Unknown''"
  by (simp add: orchestrator fixtures message_or_def errorMap_def VALIDATION_SUCCESS_def)

text \<open>
  C3. Whenever Apple reports the success status, by the Production endpoint or, after
  a wrong-environment status of Production, by the Sandbox endpoint, and the receipt
  of that response has the \<^verbatim>\<open>in_app\<close> key with an empty list, the run does not
  succeed: the callback gets the error "failed to validate for empty purchased
  list", and the result object has the possible-hack status and the message that
  the error table has for it.
\<close>

theorem empty_purchase_list_rejected:
  assumes "request prodPath body = (None, Some r) \<or>
           (\<exists>r0. request prodPath body = (None, Some r0) \<and>
                 (status (cells h r0) = 21007 \<or> status (cells h r0) = 21002) \<and>
                 request sandboxPath body = (None, Some r))"
    and "body = make_content cfg secret rcpt"
    and "status (cells h r) = VALIDATION_SUCCESS"
    and "receipt (cells h r) = Some rc" and "in_app rc = Some []"
    and "validatePurchase cfg request h secret rcpt = (out, st)"
  shows "out = Callback (Some (Error ''failed to validate for empty purchased list'')) (Some r) \<and>
         (\<forall>d. out \<noteq> Callback None d) \<and>
         status (cells (objects st) r) = VALIDATION_POSSIBLE_HACK \<and>
         message (cells (objects st) r) = errorMap VALIDATION_POSSIBLE_HACK \<and>
         errorMap VALIDATION_POSSIBLE_HACK = Some ''The receipt is valid, but purchased nothing.''"
  using assms
  by (auto simp add: orchestrator VALIDATION_SUCCESS_def VALIDATION_POSSIBLE_HACK_def errorMap_def
      split: prod.splits option.splits if_splits)

theorem empty_purchase_list_rejected_witness:
  "validatePurchase None (example_transport (None, Some 0) (None, Some 1))
      (example_heap [example_payload 21007 None, example_payload 0 (Some [])]) None ''receipt'' =
   (Callback (Some (Error ''failed to validate for empty purchased list'')) (Some 1),
    snd (validatePurchase None (example_transport (None, Some 0) (None, Some 1))
      (example_heap [example_payload 21007 None, example_payload 0 (Some [])]) None ''receipt'')) \<and>
   status (cells (objects (snd (validatePurchase None (example_transport (None, Some 0) (None, Some 1))
      (example_heap [example_payload 21007 None, example_payload 0 (Some [])]) None ''receipt''))) 1) = 2"
proof -
  let ?t = "example_transport (None, Some 0) (None, Some 1)"
  let ?h = "example_heap [example_payload 21007 None, example_payload 0 (Some [])]"
  let ?run = "validatePurchase None ?t ?h None ''receipt''"
  let ?body = "make_content None None ''receipt''"
  have rq: "?t prodPath ?body = (None, Some 1) \<or>
      (\<exists>r0. ?t prodPath ?body = (None, Some r0) \<and>
         (status (cells ?h r0) = 21007 \<or> status (cells ?h r0) = 21002) \<and>
         ?t sandboxPath ?body = (None, Some 1))"
    by (simp add: fixtures)
  have st: "status (cells ?h 1) = VALIDATION_SUCCESS"
    by (simp add: fixtures VALIDATION_SUCCESS_def)
  have rc: "receipt (cells ?h 1) = Some (example_receipt (Some []))"
    by (simp add: fixtures)
  have ia: "in_app (example_receipt (Some [])) = Some []"
    by (simp add: fixtures)
  show ?thesis
    using empty_purchase_list_rejected [where request = ?t and body = ?body and r = 1 and h = ?h
        and cfg = None and secret = None and rcpt = "''receipt''"
        and rc = "example_receipt (Some [])" and out = "fst ?run" and st = "snd ?run"]
      rq st rc ia
    by (simp add: VALIDATION_POSSIBLE_HACK_def prod_eq_iff)
qed

text \<open>
  C4 (as amended). If the Production endpoint returns status 0 with a receipt object,
  no request goes to the Sandbox endpoint, whatever it would answer. The overall
  result is success with the Production response as the result object, the service
  tag set on it, unless the \<^verbatim>\<open>in_app\<close> list of that response is present and empty:
  then the result is the possible-tamper failure.
\<close>

theorem production_success_skips_sandbox:
  assumes "request prodPath (make_content cfg secret rcpt) = (None, Some r)"
    and "status (cells h r) = 0" and "receipt (cells h r) = Some rc"
    and "validatePurchase cfg request h secret rcpt = (out, st)"
  shows "attempts sandboxPath st = 0 \<and>
         requests st = [(prodPath, make_content cfg secret rcpt)] \<and>
         (in_app rc \<noteq> Some [] \<longrightarrow>
            out = Callback None (Some r) \<and>
            cells (objects st) r = (cells h r)\<lparr> service := Some APPLE \<rparr> \<and>
            (\<forall>r'. r' \<noteq> r \<longrightarrow> cells (objects st) r' = cells h r')) \<and>
         (in_app rc = Some [] \<longrightarrow>
            out = Callback (Some (Error ''failed to validate for empty purchased list'')) (Some r))"
  using assms paths_differ
  by (auto simp add: orchestrator VALIDATION_SUCCESS_def split: prod.splits option.splits if_splits)

theorem production_success_skips_sandbox_witness:
  "validatePurchase None (example_transport (None, Some 0) (None, Some 1))
      (example_heap [example_payload 0 (Some [example_item ''T1'' ''a'' ''100'' None]),
                     example_payload 0 (Some [example_item ''T2'' ''b'' ''200'' None])])
      None ''receipt'' =
   (Callback None (Some 0),
    snd (validatePurchase None (example_transport (None, Some 0) (None, Some 1))
      (example_heap [example_payload 0 (Some [example_item ''T1'' ''a'' ''100'' None]),
                     example_payload 0 (Some [example_item ''T2'' ''b'' ''200'' None])])
      None ''receipt'')) \<and>
   attempts sandboxPath (snd (validatePurchase None (example_transport (None, Some 0) (None, Some 1))
      (example_heap [example_payload 0 (Some [example_item ''T1'' ''a'' ''100'' None]),
                     example_payload 0 (Some [example_item ''T2'' ''b'' ''200'' None])])
      None ''receipt'')) = 0"
proof -
  let ?t = "example_transport (None, Some 0) (None, Some 1)"
  let ?l = "Some [example_item ''T1'' ''a'' ''100'' None]"
  let ?h = "example_heap [example_payload 0 ?l,
                     example_payload 0 (Some [example_item ''T2'' ''b'' ''200'' None])]"
  let ?run = "validatePurchase None ?t ?h None ''receipt''"
  have rq: "?t prodPath (make_content None None ''receipt'') = (None, Some 0)"
    by (simp add: example_transport_def)
  have st: "status (cells ?h 0) = 0"
    and rc: "receipt (cells ?h 0) = Some (example_receipt ?l)"
    and ia: "in_app (example_receipt ?l) \<noteq> Some []"
    by (simp_all add: example_heap_def example_payload_def example_receipt_def)
  show ?thesis
    using production_success_skips_sandbox [where request = ?t and r = 0 and h = ?h
        and cfg = None and secret = None and rcpt = "''receipt''"
        and rc = "example_receipt ?l" and out = "fst ?run" and st = "snd ?run"]
      rq st rc ia
    by (simp add: prod_eq_iff)
qed

text \<open>
  The claim as stated fails: a Production response with status 0 and an empty
  \<^verbatim>\<open>in_app\<close> list is rejected by the check of the response handler.
\<close>

theorem production_success_not_final_counterexample:
  "status (cells (example_heap [example_payload 0 (Some []),
       example_payload 0 (Some [example_item ''T2'' ''b'' ''200'' None])]) 0) = 0 \<and>
   fst (validatePurchase None (example_transport (None, Some 0) (None, Some 1))
      (example_heap [example_payload 0 (Some []),
                     example_payload 0 (Some [example_item ''T2'' ''b'' ''200'' None])])
      None ''receipt'') =
   Callback (Some (Error ''failed to validate for empty purchased list'')) (Some 0)"
  by (simp add: orchestrator fixtures VALIDATION_SUCCESS_def)

text \<open>
  C5. The error table holds the documented messages, but not every message for a
  code without an entry is "Unknown": the response handler falls back to the
  misspelled "Unkown". The Sandbox endpoint answers here with a status that is
  neither 0 nor positive.
\<close>

theorem misspelled_unknown_message:
  "fst (validatePurchase None (example_transport (None, Some 0) (None, Some 1))
      (example_heap [example_payload 21007 None, example_payload (- 1) None])
      None ''receipt'') =
     Callback (Some (Error ''failed to validate purchase'')) (Some 1) \<and>
   message (cells (objects (snd (validatePurchase None
      (example_transport (None, Some 0) (None, Some 1))
      (example_heap [example_payload 21007 None, example_payload (- 1) None])
      None ''receipt''))) 1) = Some ''Unkown'' \<and>
   errorMap (- 1) = None"
  by (simp add: orchestrator fixtures VALIDATION_SUCCESS_def message_or_def errorMap_def)

text \<open>
  C8 (as amended). When the transport reports an error, on the Production attempt or
  on the Sandbox attempt, the run fails with that very error and a new result object
  \<^verbatim>\<open>{ status, message }\<close>: the status is that of the body when the transport has
  delivered one with the error, and the unclassified code 1 when it has not; the
  message is the entry of the error table for the status, or "Unknown". A transport
  error on Production leaves the Sandbox endpoint untouched.
\<close>

theorem transport_failure:
  assumes "validatePurchase cfg request h secret rcpt = (out, st)"
    and "body = make_content cfg secret rcpt"
    and "s = (case d of None \<Rightarrow> 1 | Some r \<Rightarrow> status (cells h r))"
  shows "(request prodPath body = (Some e, d) \<longrightarrow>
            out = Callback (Some e) (Some (next_ref h)) \<and>
            cells (objects st) (next_ref h) = object_literal s (message_or s ''Unknown'') \<and>
            attempts sandboxPath st = 0) \<and>
         (request prodPath body = (None, Some r0) \<and>
          (status (cells h r0) = 21007 \<or> status (cells h r0) = 21002) \<and>
          request sandboxPath body = (Some e, d) \<longrightarrow>
            out = Callback (Some e) (Some (next_ref h)) \<and>
            cells (objects st) (next_ref h) = object_literal s (message_or s ''Unknown'') \<and>
            attempts sandboxPath st = 1) \<and>
         (d = None \<longrightarrow> object_literal s (message_or s ''Unknown'') = object_literal 1 ''Unknown'')"
proof (intro conjI impI)
  assume "request prodPath body = (Some e, d)"
  then show "out = Callback (Some e) (Some (next_ref h))"
    "cells (objects st) (next_ref h) = object_literal s (message_or s ''Unknown'')"
    "attempts sandboxPath st = 0"
    using assms paths_differ
    by (auto simp add: orchestrator split: prod.splits option.splits if_splits)
next
  assume "request prodPath body = (None, Some r0) \<and>
          (status (cells h r0) = 21007 \<or> status (cells h r0) = 21002) \<and>
          request sandboxPath body = (Some e, d)"
  then show "out = Callback (Some e) (Some (next_ref h))"
    "cells (objects st) (next_ref h) = object_literal s (message_or s ''Unknown'')"
    "attempts sandboxPath st = 1"
    using assms paths_differ
    by (auto simp add: orchestrator split: prod.splits option.splits if_splits)
next
  assume "d = None"
  then show "object_literal s (message_or s ''Unknown'') = object_literal 1 ''Unknown''"
    using assms(3) by (simp add: message_or_def errorMap_def)
qed

theorem transport_failure_witness:
  "validatePurchase None (example_transport (Some (TransportError ''ECONNRESET''), None) (None, Some 0))
      (example_heap [example_payload 0 None]) None ''receipt'' =
   (Callback (Some (TransportError ''ECONNRESET'')) (Some 1),
    snd (validatePurchase None
      (example_transport (Some (TransportError ''ECONNRESET''), None) (None, Some 0))
      (example_heap [example_payload 0 None]) None ''receipt'')) \<and>
   cells (objects (snd (validatePurchase None
      (example_transport (Some (TransportError ''ECONNRESET''), None) (None, Some 0))
      (example_heap [example_payload 0 None]) None ''receipt''))) 1 = object_literal 1 ''Unknown'' \<and>
   attempts sandboxPath (snd (validatePurchase None
      (example_transport (Some (TransportError ''ECONNRESET''), None) (None, Some 0))
      (example_heap [example_payload 0 None]) None ''receipt'')) = 0"
proof -
  let ?t = "example_transport (Some (TransportError ''ECONNRESET''), None) (None, Some 0)"
  let ?h = "example_heap [example_payload 0 None]"
  let ?run = "validatePurchase None ?t ?h None ''receipt''"
  have rq: "?t prodPath (make_content None None ''receipt'') =
      (Some (TransportError ''ECONNRESET''), None)"
    by (simp add: example_transport_def)
  have n: "next_ref ?h = 1"
    by (simp add: example_heap_def)
  show ?thesis
    using transport_failure [where request = ?t and h = ?h and cfg = None and secret = None
        and rcpt = "''receipt''" and out = "fst ?run" and st = "snd ?run"
        and body = "make_content None None ''receipt''" and d = None and s = 1
        and e = "TransportError ''ECONNRESET''"]
      rq n
    by (simp add: prod_eq_iff)
qed

text \<open>
  The claim as stated fails: \<^verbatim>\<open>status = data ? data.status : 1\<close> takes the status of
  a body that comes with the transport error.
\<close>

theorem transport_failure_with_body_counterexample:
  "fst (validatePurchase None
      (example_transport (Some (TransportError ''ECONNRESET''), Some 0) (None, None))
      (example_heap [example_payload 21005 None]) None ''receipt'') =
     Callback (Some (TransportError ''ECONNRESET'')) (Some 1) \<and>
   status (cells (objects (snd (validatePurchase None
      (example_transport (Some (TransportError ''ECONNRESET''), Some 0) (None, None))
      (example_heap [example_payload 21005 None]) None ''receipt''))) 1) = 21005 \<and>
   message (cells (objects (snd (validatePurchase None
      (example_transport (Some (TransportError ''ECONNRESET''), Some 0) (None, None))
      (example_heap [example_payload 21005 None]) None ''receipt''))) 1) =
     Some ''The receipt server is not currently available.''"
  by (simp add: orchestrator fixtures message_or_def errorMap_def)

text \<open>
  The runs in which no callback is invoked: the deciding response has neither an
  error nor a body, or it reports the success status without a receipt object. A
  \<^verbatim>\<open>TypeError\<close> escapes from them.
\<close>

lemma no_callback_inputs:
  assumes "validatePurchase cfg request h secret rcpt = (out, st)"
    and "deciding_response request (make_content cfg secret rcpt) h = (None, d0)"
    and "d0 = None \<or>
         (\<exists>r. d0 = Some r \<and> status (cells h r) = VALIDATION_SUCCESS \<and> receipt (cells h r) = None)"
  shows "out = Uncaught"
  using assms
  by (auto simp add: orchestrator deciding_response_def VALIDATION_SUCCESS_def
      split: prod.splits option.splits if_splits)




text \<open>
  C10 (as amended). The response handler works on the object it is given, in place:
  no other object of the heap changes, nothing is allocated, and the object handed to
  the callback is that same reference. The service field is set on every call. On
  the empty-purchase-list path the status and the message are overwritten as well;
  on the path of a status that is not the success status the message is overwritten
  as well. No other field of the object changes.
\<close>

theorem handleResponse_frame:
  assumes "handleResponse rcpt (Some r) h = (out, h')"
  shows "(\<forall>r'. r' \<noteq> r \<longrightarrow> cells h' r' = cells h r') \<and>
         next_ref h' = next_ref h \<and>
         (out = Uncaught \<or> (\<exists>e. out = Callback e (Some r))) \<and>
         (if status (cells h r) = VALIDATION_SUCCESS then
            (case receipt (cells h r) of
               None \<Rightarrow> cells h' r = (cells h r)\<lparr> service := Some APPLE \<rparr>
             | Some rc \<Rightarrow>
                 if in_app rc = Some [] then
                   cells h' r = (cells h r)\<lparr> service := Some APPLE,
                     status := VALIDATION_POSSIBLE_HACK,
                     message := errorMap VALIDATION_POSSIBLE_HACK \<rparr>
                 else cells h' r = (cells h r)\<lparr> service := Some APPLE \<rparr>)
          else (\<exists>m. cells h' r = (cells h r)\<lparr> service := Some APPLE, message := Some m \<rparr>))"
  using assms
  by (auto simp add: handleResponse_def modify_def Let_def split: option.splits if_splits)

theorem handleResponse_frame_witness:
  "cells (snd (handleResponse ''receipt'' (Some 0)
      (example_heap [example_payload 0 (Some []), example_payload 0 None]))) 0 =
     (example_payload 0 (Some []))\<lparr> service := Some APPLE, status := 2,
        message := Some ''The receipt is valid, but purchased nothing.'' \<rparr> \<and>
   cells (snd (handleResponse ''receipt'' (Some 0)
      (example_heap [example_payload 0 (Some []), example_payload 0 None]))) 1 =
     example_payload 0 None"
proof -
  let ?h = "example_heap [example_payload 0 (Some []), example_payload 0 None]"
  let ?run = "handleResponse ''receipt'' (Some 0) ?h"
  have c: "cells ?h 0 = example_payload 0 (Some [])" "cells ?h 1 = example_payload 0 None"
    by (simp_all add: example_heap_def)
  have f: "status (example_payload 0 (Some [])) = VALIDATION_SUCCESS"
    "receipt (example_payload 0 (Some [])) = Some (example_receipt (Some []))"
    "in_app (example_receipt (Some [])) = Some []"
    by (simp_all add: example_payload_def example_receipt_def VALIDATION_SUCCESS_def)
  show ?thesis
    using handleResponse_frame [where rcpt = "''receipt''" and r = 0 and h = ?h
        and out = "fst ?run" and h' = "snd ?run"] c f
    by (simp add: VALIDATION_POSSIBLE_HACK_def errorMap_def)
qed

text \<open>
  The claim as stated fails: off the empty-purchase-list path, on a status that is
  not the success status, the message field is overwritten too.
\<close>

theorem handleResponse_message_counterexample:
  "status (cells (example_heap [example_payload (- 1) None]) 0) \<noteq> VALIDATION_SUCCESS \<and>
   message (cells (example_heap [example_payload (- 1) None]) 0) = None \<and>
   message (cells (snd (handleResponse ''receipt'' (Some 0)
      (example_heap [example_payload (- 1) None]))) 0) = Some ''Unkown''"
  by (simp add: handleResponse_def modify_def fixtures VALIDATION_SUCCESS_def message_or_def
      errorMap_def)

end
